theory Spec2Isabelle
  imports Main "HOL-Library.AList"
begin

section \<open>The signup server of deuxdrop: \<open>servers/lib/rdservers/signup/server.js\<close>\<close>

subsection \<open>JavaScript values\<close>

text \<open>
  Everything a client sends arrives as parsed JSON. An object is the list of its own
  properties in enumeration order (keys are distinct after parsing); numbers are kept as
  integers, the only number the code compares against being \<open>1\<close>. A value that may be
  \<open>undefined\<close> is a \<open>json option\<close>, \<open>None\<close> being \<open>undefined\<close>.
\<close>

datatype json =
    JNull
  | JBool bool
  | JNum int
  | JStr string
  | JArr "json list"
  | JObj "(string \<times> json) list"

type_synonym jsv = "json option"

text \<open>What the code can throw, or what a collaborator throws into it.\<close>

datatype error =
    MalformedPayloadError
  | KeyMismatchError
  | UnauthorizedUserDataLeakError
  | TypeError
  | ReferenceError
  | JsError string
  | CollaboratorError string

text \<open>Decimal rendering of an array or string index, as property names are strings.\<close>

fun dec :: "nat \<Rightarrow> string" where
  "dec n = (if n < 10 then [char_of (48 + n)] else dec (n div 10) @ [char_of (48 + n mod 10)])"

declare dec.simps [simp del]

text \<open>
  The own enumerable properties of a value, in \<open>for ... in\<close> order: the members of an
  object, the indices of an array or of a string; nothing for the other primitives and for
  \<open>null\<close> and \<open>undefined\<close> (over which \<open>for ... in\<close> runs zero times).
\<close>

fun own_props :: "jsv \<Rightarrow> (string \<times> json) list" where
  "own_props (Some (JObj kvs)) = kvs"
| "own_props (Some (JArr xs)) = zip (map dec [0..<length xs]) xs"
| "own_props (Some (JStr s)) = zip (map dec [0..<length s]) (map (\<lambda>c. JStr [c]) s)"
| "own_props _ = []"

text \<open>
  Property read \<open>v.k\<close> (or \<open>v[k]\<close>) for the names the code reads (none of them inherited
  from a prototype): a \<open>TypeError\<close> on \<open>null\<close> and \<open>undefined\<close>, the \<open>length\<close> of an array
  or string, an own property, or \<open>undefined\<close>.
\<close>

fun get_prop :: "jsv \<Rightarrow> string \<Rightarrow> error + jsv" where
  "get_prop None k = Inl TypeError"
| "get_prop (Some JNull) k = Inl TypeError"
| "get_prop (Some (JArr xs)) k =
     (if k = ''length'' then Inr (Some (JNum (int (length xs))))
      else Inr (map_of (own_props (Some (JArr xs))) k))"
| "get_prop (Some (JStr s)) k =
     (if k = ''length'' then Inr (Some (JNum (int (length s))))
      else Inr (map_of (own_props (Some (JStr s))) k))"
| "get_prop v k = Inr (map_of (own_props v) k)"

text \<open>
  The call \<open>v.hasOwnProperty(k)\<close>. JSON carries no functions, so an object with an own
  member named \<open>hasOwnProperty\<close> shadows the inherited method with something that cannot
  be called.
\<close>

fun hasOwnProperty :: "jsv \<Rightarrow> string \<Rightarrow> error + bool" where
  "hasOwnProperty None k = Inl TypeError"
| "hasOwnProperty (Some JNull) k = Inl TypeError"
| "hasOwnProperty (Some (JObj kvs)) k =
     (if map_of kvs ''hasOwnProperty'' \<noteq> None then Inl TypeError
      else Inr (map_of kvs k \<noteq> None))"
| "hasOwnProperty (Some (JArr xs)) k =
     Inr (k = ''length'' \<or> map_of (own_props (Some (JArr xs))) k \<noteq> None)"
| "hasOwnProperty (Some (JStr s)) k =
     Inr (k = ''length'' \<or> map_of (own_props (Some (JStr s))) k \<noteq> None)"
| "hasOwnProperty v k = Inr False"

text \<open>\<open>typeof v === 'string'\<close>.\<close>

fun is_string :: "jsv \<Rightarrow> bool" where
  "is_string (Some (JStr s)) = True"
| "is_string _ = False"

text \<open>
  Strict equality \<open>a === b\<close> of two values that come from different parses: primitives
  compare by value, arrays and objects by identity, so two of them are never equal.
\<close>

definition strict_eq :: "jsv \<Rightarrow> jsv \<Rightarrow> bool" where
  "strict_eq a b =
     (a = b \<and> (case a of Some (JArr xs) \<Rightarrow> False | Some (JObj kvs) \<Rightarrow> False | _ \<Rightarrow> True))"

subsection \<open>Data of the signup protocol\<close>

text \<open>
  The payload \<open>$pubident.assertGetPersonSelfIdent\<close> hands back: the server the identity
  names, its profile and its root keys.
\<close>

record personSelfIdent =
  transitServerIdent :: string
  poco :: jsv
  root_longtermSignPubKey :: string
  root_rootSignPubKey :: string

text \<open>What \<open>$keyops.assertCheckGetAttestation\<close> hands back for a client authorization.\<close>

record clientAuth =
  authorizedKey :: string

text \<open>The \<open>ClientSignupBundle\<close> message; a member the client left out is \<open>undefined\<close>.\<close>

record signup_msg =
  selfIdent :: jsv
  clientAuths :: jsv
  storeKeyring :: jsv
  because :: jsv

text \<open>The value \<open>validateClientAuth\<close> returns on success.\<close>

record validBits =
  vb_selfIdentPayload :: personSelfIdent
  vb_clientAuthsMap :: "(string \<times> json) list"

text \<open>
  The values that flow between the steps of a task and out of the challenge verifiers.
  A promise is represented by what it settles to.
\<close>

datatype jsval =
    Undefined
  | Null
  | Bool bool
  | Str string
  | ValidBits validBits
  | Blobs "json list"
  | Resolved jsval
  | Rejected error

fun truthy :: "jsval \<Rightarrow> bool" where
  "truthy Undefined = False"
| "truthy Null = False"
| "truthy (Bool b) = b"
| "truthy (Str s) = (s \<noteq> [])"
| "truthy _ = True"

text \<open>Messages written to the peer, and the observable events of a run in order.\<close>

datatype message =
    Challenge jsval
  | SignedUp
  | Listing jsval

datatype event =
    WriteMessage message
  | Close
  | ServerCheckUserAccount string
  | ServerCreateUserAccount personSelfIdent jsv "(string \<times> json) list option" jsv jsv
  | PhonebookScanPublicListing

text \<open>
  The account store behind \<open>serverConfig.authApi\<close>: each call answers with what its
  promise settles to.
\<close>

record auth_api =
  serverCheckUserAccount :: "string \<Rightarrow> error + bool"
  serverCreateUserAccount ::
    "personSelfIdent \<Rightarrow> jsv \<Rightarrow> (string \<times> json) list option \<Rightarrow> jsv \<Rightarrow> jsv
       \<Rightarrow> error + jsval"
  phonebookScanPublicListing :: "error + jsval"

record server_config =
  selfIdentBlob :: string
  authApi :: auth_api

record connection =
  clientPublicKey :: string
  serverConfig :: server_config

text \<open>A parsed BrowserID bundle, the token inside it and the principal of a chain.\<close>

record vep_bundle =
  certificates :: jsv
  assertion :: jsv

record jwt_token =
  audience :: string

record principal =
  email :: jsv

text \<open>
  The collaborators that live outside this file, taken as parameters:
  \<open>$pubident.assertGetPersonSelfIdent\<close> and \<open>$keyops.assertCheckGetAttestation\<close> (both
  throw), jwcrypto's \<open>unbundleCertsAndAssertion\<close>, \<open>JWCert.verifyChain\<close> (handed the
  success and the error callback, it returns or throws; the root callback, whose body is
  empty, is left out), the parsing and verification of a token, and the clock read by
  \<open>new Date()\<close>.

  The module uses three identifiers that are not among the dependencies its \<open>define\<close>
  call binds: \<open>$Q\<close>, \<open>when\<close> and \<open>jwt\<close>. Whether the global scope binds them (to the Q
  promise library, to its \<open>when\<close>, to jwcrypto's jwt module) is a parameter as well; reading
  an unbound identifier throws a \<open>ReferenceError\<close>.
\<close>

record env =
  assertGetPersonSelfIdent :: "jsv \<Rightarrow> error + personSelfIdent"
  assertCheckGetAttestation :: "json \<Rightarrow> string \<Rightarrow> string list \<Rightarrow> error + clientAuth"
  unbundleCertsAndAssertion :: "jsv \<Rightarrow> error + vep_bundle"
  verifyChain ::
    "jsv \<Rightarrow> nat \<Rightarrow> (jsv \<Rightarrow> principal \<Rightarrow> error + unit) \<Rightarrow> (jsv \<Rightarrow> error + unit) \<Rightarrow> error + unit"
  jwt_parse :: "jsv \<Rightarrow> error + jwt_token"
  jwt_verify :: "jwt_token \<Rightarrow> jsv \<Rightarrow> error + bool"
  now :: nat
  Q_bound :: bool
  when_bound :: bool
  jwt_bound :: bool

subsection \<open>The challenge outcomes\<close>

definition CHALLENGE_NEVER :: string where
  "CHALLENGE_NEVER = ''never''"

definition CHALLENGE_ALREADY_SIGNED_UP :: string where
  "CHALLENGE_ALREADY_SIGNED_UP = ''already-signed-up''"

definition CHALLENGE_INVALID_BROWSERID :: string where
  "CHALLENGE_INVALID_BROWSERID = ''bad-browserid-assertion''"

definition CHALLENGE_SERVER_PROBLEM :: string where
  "CHALLENGE_SERVER_PROBLEM = ''server-problem-try-again-later''"

subsection \<open>The task engine\<close>

text \<open>
  Modelled from the spec: the step runner of \<open>rdcommon/taskidiom\<close> is not among the
  sources. What a step does is one of three things: it hands a value on to the next step
  (with the \<open>this\<close> it may have changed), it calls the early-return primitive with a
  value, or it fails (it throws, or the promise it returned is rejected).
\<close>

datatype ('s, 'v) outcome =
    Continue 's 'v
  | EarlyReturn 'v
  | Failure error

text \<open>
  Modelled from the spec: what a task settles to, its promise being resolved with a value
  or rejected with the failure of a step.
\<close>

datatype task_result =
    TaskDone jsval
  | TaskFailed error

text \<open>
  Modelled from the spec: steps run strictly in declaration order on the shared \<open>this\<close>;
  each step receives what the previous one produced (what its promise settled to); a
  failing step is fatal to the task; an early return resolves the task at once with the
  given value and the remaining steps are skipped. The events of the steps that ran are
  kept in order.
\<close>

fun runSteps ::
  "('s \<Rightarrow> jsval \<Rightarrow> ('s, jsval) outcome \<times> event list) list \<Rightarrow> 's \<Rightarrow> jsval
     \<Rightarrow> task_result \<times> event list" where
  "runSteps [] this v = (TaskDone v, [])"
| "runSteps (step # steps) this v =
     (case step this v of
        (Continue this' v', es) \<Rightarrow>
          (case runSteps steps this' v' of (r, es') \<Rightarrow> (r, es @ es'))
      | (EarlyReturn v', es) \<Rightarrow> (TaskDone v', es)
      | (Failure e, es) \<Rightarrow> (TaskFailed e, es))"

text \<open>
  Modelled from the spec: a task made by \<open>defineTask\<close> or \<open>defineEarlyReturnTask\<close> runs
  its steps, the first one receiving \<open>undefined\<close>.
\<close>

definition runTask ::
  "('s \<Rightarrow> jsval \<Rightarrow> ('s, jsval) outcome \<times> event list) list \<Rightarrow> 's \<Rightarrow> task_result \<times> event list" where
  "runTask steps this = runSteps steps this Undefined"

text \<open>
  Modelled from the spec: a task made by \<open>defineSoftFailureTask\<close> resolves with \<open>false\<close>
  where a plain task would fail, and otherwise with what its steps resolved with.
\<close>

definition runSoftFailureTask ::
  "('s \<Rightarrow> jsval \<Rightarrow> ('s, jsval) outcome \<times> event list) list \<Rightarrow> 's \<Rightarrow> jsval \<times> event list" where
  "runSoftFailureTask steps this =
     (case runSteps steps this Undefined of
        (TaskDone v, es) \<Rightarrow> (v, es)
      | (TaskFailed e, es) \<Rightarrow> (Bool False, es))"

subsection \<open>\<open>ValidateSignupRequestTask\<close> (a soft-failure task)\<close>

record validate_this =
  v_msg :: signup_msg
  v_clientPublicKey :: string
  v_serverConfig :: server_config
  personSelfIdentPayload :: "personSelfIdent option"

definition validateSelfIdent ::
  "env \<Rightarrow> validate_this \<Rightarrow> jsval \<Rightarrow> (validate_this, jsval) outcome \<times> event list" where
  "validateSelfIdent env this arg =
     (case assertGetPersonSelfIdent env (selfIdent (v_msg this)) of
        Inl e \<Rightarrow> (Failure e, [])
      | Inr p \<Rightarrow>
          if transitServerIdent p \<noteq> selfIdentBlob (v_serverConfig this)
          then (Failure KeyMismatchError, [])
          else
            (case hasOwnProperty (poco p) ''displayName'' of
               Inl e \<Rightarrow> (Failure e, [])
             | Inr has \<Rightarrow>
                 if \<not> has then (Failure MalformedPayloadError, [])
                 else (Continue (this\<lparr>personSelfIdentPayload := Some p\<rparr>) Undefined, [])))"

text \<open>
  Assignment \<open>obj[k] = v\<close> to a plain object, the object being the list of its own
  properties in enumeration order. A key that is an array index (the decimal string, with
  no leading zero, of a number below \<open>2^32 - 1\<close>) is enumerated before every other key, the
  indices in ascending order; the other keys follow in the order of their first
  assignment; assignment to an existing key keeps the key's place. An assignment to
  \<open>__proto__\<close> creates no own property (at most it replaces the prototype, which the
  list of own properties does not show).
\<close>

definition decimal_value :: "string \<Rightarrow> int" where
  "decimal_value s = foldl (\<lambda>n c. 10 * n + (of_char c - 48)) 0 s"

definition array_index :: "string \<Rightarrow> int option" where
  "array_index k =
     (if k \<noteq> [] \<and> list_all (\<lambda>c. 48 \<le> (of_char c :: int) \<and> (of_char c :: int) \<le> 57) k \<and>
         (if hd k = CHR ''0'' then length k = 1 else True) \<and>
         decimal_value k < 4294967295
      then Some (decimal_value k) else None)"

fun assign_index :: "int \<Rightarrow> string \<Rightarrow> json \<Rightarrow> (string \<times> json) list \<Rightarrow> (string \<times> json) list" where
  "assign_index n k v [] = [(k, v)]"
| "assign_index n k v ((k', v') # ps) =
     (if k' = k then (k, v) # ps
      else
        (case array_index k' of
           Some n' \<Rightarrow>
             if n < n' then (k, v) # (k', v') # ps else (k', v') # assign_index n k v ps
         | None \<Rightarrow> (k, v) # (k', v') # ps))"

definition js_assign :: "string \<Rightarrow> json \<Rightarrow> (string \<times> json) list \<Rightarrow> (string \<times> json) list" where
  "js_assign k v obj =
     (if k = ''__proto__'' then obj
      else
        (case array_index k of
           Some n \<Rightarrow> assign_index n k v obj
         | None \<Rightarrow> AList.update k v obj))"

text \<open>
  The loop of \<open>validateClientAuth\<close> over the authorization blobs: it stops at the first
  attestation that does not check, fills \<open>clientAuthsMap\<close> and remembers whether the
  peer's key was named.
\<close>

fun clientAuthLoop ::
  "env \<Rightarrow> string list \<Rightarrow> string \<Rightarrow> json list \<Rightarrow> bool \<Rightarrow> (string \<times> json) list
     \<Rightarrow> error + (bool \<times> (string \<times> json) list)" where
  "clientAuthLoop env authorizedKeys peerKey [] foundClientWeAreTalkingTo clientAuthsMap =
     Inr (foundClientWeAreTalkingTo, clientAuthsMap)"
| "clientAuthLoop env authorizedKeys peerKey (blob # blobs) foundClientWeAreTalkingTo clientAuthsMap =
     (case assertCheckGetAttestation env blob ''client'' authorizedKeys of
        Inl e \<Rightarrow> Inl e
      | Inr clientAuth \<Rightarrow>
          clientAuthLoop env authorizedKeys peerKey blobs
            (if authorizedKey clientAuth = peerKey then True else foundClientWeAreTalkingTo)
            (js_assign (authorizedKey clientAuth) blob clientAuthsMap))"

definition validateClientAuth ::
  "env \<Rightarrow> validate_this \<Rightarrow> jsval \<Rightarrow> (validate_this, jsval) outcome \<times> event list" where
  "validateClientAuth env this arg =
     (case clientAuths (v_msg this) of
        Some (JArr clientAuthBlobs) \<Rightarrow>
          if length clientAuthBlobs = 0 then (Failure MalformedPayloadError, [])
          else
            (case personSelfIdentPayload this of
               None \<Rightarrow> (Failure TypeError, [])
             | Some p \<Rightarrow>
                 (case clientAuthLoop env [root_longtermSignPubKey p] (v_clientPublicKey this)
                         clientAuthBlobs False [] of
                    Inl e \<Rightarrow> (Failure e, [])
                  | Inr (foundClientWeAreTalkingTo, clientAuthsMap) \<Rightarrow>
                      if \<not> foundClientWeAreTalkingTo
                      then (Failure UnauthorizedUserDataLeakError, [])
                      else (Continue this
                              (ValidBits \<lparr>vb_selfIdentPayload = p,
                                          vb_clientAuthsMap = clientAuthsMap\<rparr>), [])))
      | _ \<Rightarrow> (Failure MalformedPayloadError, []))"

definition ValidateSignupRequestTask ::
  "env \<Rightarrow> signup_msg \<Rightarrow> string \<Rightarrow> server_config \<Rightarrow> jsval \<times> event list" where
  "ValidateSignupRequestTask env m key cfg =
     runSoftFailureTask [validateSelfIdent env, validateClientAuth env]
       \<lparr>v_msg = m, v_clientPublicKey = key, v_serverConfig = cfg,
        personSelfIdentPayload = None\<rparr>"

subsection \<open>\<open>ProcessSignupTask\<close> (an early-return task)\<close>

record process_this =
  msg :: signup_msg
  conn :: connection
  selfIdentPayload :: "personSelfIdent option"
  clientAuthsMap :: "(string \<times> json) list option"
  challenges :: "string list"

text \<open>
  \<open>respondWithChallenge\<close>: write the challenge, close, return early with what \<open>close\<close>
  returned.
\<close>

definition respondWithChallenge :: "jsval \<Rightarrow> ('s, jsval) outcome \<times> event list" where
  "respondWithChallenge challengeType =
     (EarlyReturn Undefined, [WriteMessage (Challenge challengeType), Close])"

definition validateClientOrigin :: "string \<Rightarrow> bool" where
  "validateClientOrigin host = (if CHR ''.'' \<in> set host then False else True)"

text \<open>
  In \<open>verifyBrowserId\<close>, \<open>deferred\<close> is \<open>$Q.defer\<close>, the function itself: it is never
  called. A function has neither a \<open>resolve\<close> nor a \<open>promise\<close> member, so every
  \<open>deferred.resolve(...)\<close> of the two callbacks is a call of \<open>undefined\<close>, and
  \<open>deferred.promise\<close> is \<open>undefined\<close>.
\<close>

definition deferred_resolve :: "jsval \<Rightarrow> error + unit" where
  "deferred_resolve v = Inl TypeError"

definition successCB ::
  "env \<Rightarrow> vep_bundle \<Rightarrow> jsv \<Rightarrow> jsv \<Rightarrow> principal \<Rightarrow> error + unit" where
  "successCB env bundle userClaimedEmail pk princ =
     (if \<not> jwt_bound env then Inl ReferenceError
      else
        (case jwt_parse env (assertion bundle) of
           Inl e \<Rightarrow> Inl e
         | Inr tok \<Rightarrow>
             if \<not> validateClientOrigin (audience tok)
             then deferred_resolve (Str CHALLENGE_INVALID_BROWSERID)
             else if \<not> strict_eq (email princ) userClaimedEmail
             then deferred_resolve (Str CHALLENGE_INVALID_BROWSERID)
             else
               (case jwt_verify env tok pk of
                  Inl e \<Rightarrow> Inl e
                | Inr ok \<Rightarrow>
                    if \<not> ok then deferred_resolve (Str CHALLENGE_INVALID_BROWSERID)
                    else deferred_resolve Undefined)))"

definition errorCB :: "jsv \<Rightarrow> error + unit" where
  "errorCB err = deferred_resolve (Str CHALLENGE_SERVER_PROBLEM)"

definition verifyBrowserId :: "env \<Rightarrow> process_this \<Rightarrow> jsv \<Rightarrow> error + jsval" where
  "verifyBrowserId env this assertn =
     (case selfIdentPayload this of
        None \<Rightarrow> Inl TypeError
      | Some p \<Rightarrow>
     (case hasOwnProperty (poco p) ''emails'' of
        Inl e \<Rightarrow> Inl e
      | Inr has \<Rightarrow>
     if \<not> has then Inr (Str CHALLENGE_INVALID_BROWSERID) else
     (case get_prop (poco p) ''emails'' of
        Inl e \<Rightarrow> Inl e
      | Inr emails \<Rightarrow>
     (case get_prop emails ''length'' of
        Inl e \<Rightarrow> Inl e
      | Inr len \<Rightarrow>
     if \<not> strict_eq len (Some (JNum 1)) then Inr (Str CHALLENGE_INVALID_BROWSERID) else
     (case get_prop emails ''0'' of
        Inl e \<Rightarrow> Inl e
      | Inr email0 \<Rightarrow>
     if \<not> is_string email0 then Inr (Str CHALLENGE_INVALID_BROWSERID) else
     (case get_prop (poco p) ''email'' of
        Inl e \<Rightarrow> Inl e
      | Inr pocoEmail \<Rightarrow>
     (case get_prop pocoEmail ''0'' of
        Inl e \<Rightarrow> Inl e
      | Inr userClaimedEmail \<Rightarrow>
     (case unbundleCertsAndAssertion env assertn of
        Inl ex \<Rightarrow> Inr (Str CHALLENGE_INVALID_BROWSERID)
      | Inr bundle \<Rightarrow>
     if \<not> Q_bound env then Inl ReferenceError else
     (case verifyChain env (certificates bundle) (now env)
             (successCB env bundle userClaimedEmail) errorCB of
        Inl e \<Rightarrow> Inl e
      | Inr u \<Rightarrow> Inr Undefined)))))))))"

text \<open>\<open>$Q.isPromise\<close>: of the values a verifier can hand back, only promises.\<close>

fun isPromise :: "jsval \<Rightarrow> bool" where
  "isPromise (Resolved v) = True"
| "isPromise (Rejected e) = True"
| "isPromise _ = False"

text \<open>
  The \<open>for (var because in this.msg.because)\<close> loop of \<open>checkOrGenerateChallenge\<close>.
  It ends in the list of promises collected, or in what stopped it. The identifier
  \<open>problemo\<close> passed to \<open>respondWithChallenge\<close> is declared nowhere, so evaluating the
  argument throws before anything is written.
\<close>

fun challengeLoop ::
  "env \<Rightarrow> process_this \<Rightarrow> (string \<times> json) list \<Rightarrow> jsval list \<Rightarrow> error + jsval list" where
  "challengeLoop env this [] promises = Inr promises"
| "challengeLoop env this ((because_key, v) # rest) promises =
     (if because_key \<notin> set (challenges this) then challengeLoop env this rest promises
      else
        (case (if because_key = ''browserid'' then verifyBrowserId env this (Some v)
               else if because_key = ''none'' then Inr Null
               else Inl (JsError ''Unimplemented but server supported challenge'')) of
           Inl e \<Rightarrow> Inl e
         | Inr result \<Rightarrow>
             if \<not> Q_bound env then Inl ReferenceError
             else if isPromise result then challengeLoop env this rest (promises @ [result])
             else if truthy result then Inl ReferenceError
             else challengeLoop env this rest promises))"

text \<open>
  The \<open>successish\<close> callback: the first truthy result is the challenge to issue.
\<close>

fun successish :: "jsval list \<Rightarrow> jsval option" where
  "successish [] = None"
| "successish (r # results) = (if truthy r then Some r else successish results)"

text \<open>\<open>$Q.all\<close>: the resolved values, or a rejection if any promise is rejected.\<close>

fun Q_all :: "jsval list \<Rightarrow> error + jsval list" where
  "Q_all [] = Inr []"
| "Q_all (Resolved v # ps) = (case Q_all ps of Inl e \<Rightarrow> Inl e | Inr vs \<Rightarrow> Inr (v # vs))"
| "Q_all (Rejected e # ps) = Inl e"
| "Q_all (v # ps) = (case Q_all ps of Inl e \<Rightarrow> Inl e | Inr vs \<Rightarrow> Inr (v # vs))"

text \<open>The steps, in declaration order.\<close>

definition validateSignupRequest ::
  "env \<Rightarrow> process_this \<Rightarrow> jsval \<Rightarrow> (process_this, jsval) outcome \<times> event list" where
  "validateSignupRequest env this arg =
     (case ValidateSignupRequestTask env (msg this) (clientPublicKey (conn this))
             (serverConfig (conn this)) of
        (validBits, es) \<Rightarrow> (Continue this validBits, es))"

definition dealWithInvalidRequest ::
  "process_this \<Rightarrow> jsval \<Rightarrow> (process_this, jsval) outcome \<times> event list" where
  "dealWithInvalidRequest this validBits =
     (if \<not> truthy validBits then respondWithChallenge (Str CHALLENGE_NEVER)
      else
        (case validBits of
           ValidBits vb \<Rightarrow>
             (Continue (this\<lparr>selfIdentPayload := Some (vb_selfIdentPayload vb),
                              clientAuthsMap := Some (vb_clientAuthsMap vb)\<rparr>) Undefined, [])
         | _ \<Rightarrow>
             (Continue (this\<lparr>selfIdentPayload := None, clientAuthsMap := None\<rparr>) Undefined, [])))"

definition checkForExistingAccount ::
  "process_this \<Rightarrow> jsval \<Rightarrow> (process_this, jsval) outcome \<times> event list" where
  "checkForExistingAccount this arg =
     (case selfIdentPayload this of
        None \<Rightarrow> (Failure TypeError, [])
      | Some p \<Rightarrow>
          (case serverCheckUserAccount (authApi (serverConfig (conn this)))
                  (root_rootSignPubKey p) of
             Inl e \<Rightarrow> (Failure e, [ServerCheckUserAccount (root_rootSignPubKey p)])
           | Inr hasAccount \<Rightarrow>
               (Continue this (Bool hasAccount),
                [ServerCheckUserAccount (root_rootSignPubKey p)])))"

definition verifyNoExistingAccount ::
  "process_this \<Rightarrow> jsval \<Rightarrow> (process_this, jsval) outcome \<times> event list" where
  "verifyNoExistingAccount this hasAccount =
     (if truthy hasAccount then respondWithChallenge (Str CHALLENGE_ALREADY_SIGNED_UP)
      else (Continue this Undefined, []))"

definition determineChallenges ::
  "process_this \<Rightarrow> jsval \<Rightarrow> (process_this, jsval) outcome \<times> event list" where
  "determineChallenges this arg =
     (Continue (this\<lparr>challenges := [''none'', ''browserid'']\<rparr>) Undefined, [])"

definition checkOrGenerateChallenge ::
  "env \<Rightarrow> process_this \<Rightarrow> jsval \<Rightarrow> (process_this, jsval) outcome \<times> event list" where
  "checkOrGenerateChallenge env this arg =
     (let passed = (''none'' \<in> set (challenges this)); promises = [] in
      case challengeLoop env this (own_props (because (msg this))) promises of
        Inl e \<Rightarrow> (Failure e, [])
      | Inr promises \<Rightarrow>
          if length promises \<noteq> 0 then
            (if \<not> when_bound env then (Failure ReferenceError, [])
             else
               (case Q_all promises of
                  Inr results \<Rightarrow>
                    (case successish results of
                       Some r \<Rightarrow> respondWithChallenge r
                     | None \<Rightarrow> (Continue this Undefined, []))
                | Inl ex \<Rightarrow> respondWithChallenge (Str CHALLENGE_SERVER_PROBLEM)))
          else (Continue this Undefined, []))"

definition doTheSignup ::
  "process_this \<Rightarrow> jsval \<Rightarrow> (process_this, jsval) outcome \<times> event list" where
  "doTheSignup this arg =
     (case selfIdentPayload this of
        None \<Rightarrow> (Failure TypeError, [])
      | Some p \<Rightarrow>
          (case get_prop (poco p) ''displayName'' of
             Inl e \<Rightarrow> (Failure e, [])
           | Inr displayName \<Rightarrow>
               (let publicListInfo = Some (JObj (case displayName of
                                                  None \<Rightarrow> []
                                                | Some d \<Rightarrow> [(''displayName'', d)]))
                in
                  (case serverCreateUserAccount (authApi (serverConfig (conn this)))
                          p (selfIdent (msg this)) (clientAuthsMap this)
                          (storeKeyring (msg this)) publicListInfo of
                     Inl e \<Rightarrow>
                       (Failure e,
                        [ServerCreateUserAccount p (selfIdent (msg this)) (clientAuthsMap this)
                           (storeKeyring (msg this)) publicListInfo])
                   | Inr v \<Rightarrow>
                       (Continue this v,
                        [ServerCreateUserAccount p (selfIdent (msg this)) (clientAuthsMap this)
                           (storeKeyring (msg this)) publicListInfo])))))"

definition tellThemTheyAreSignedUp ::
  "process_this \<Rightarrow> jsval \<Rightarrow> (process_this, jsval) outcome \<times> event list" where
  "tellThemTheyAreSignedUp this arg =
     (Continue this Undefined, [WriteMessage SignedUp, Close])"

definition ProcessSignupTask ::
  "env \<Rightarrow> signup_msg \<Rightarrow> connection \<Rightarrow> task_result \<times> event list" where
  "ProcessSignupTask env m c =
     runTask
       [validateSignupRequest env,
        dealWithInvalidRequest,
        checkForExistingAccount,
        verifyNoExistingAccount,
        determineChallenges,
        checkOrGenerateChallenge env,
        doTheSignup,
        tellThemTheyAreSignedUp]
       \<lparr>msg = m, conn = c, selfIdentPayload = None, clientAuthsMap = None,
        challenges = []\<rparr>"



subsection \<open>The phonebook task and the server definition\<close>

definition scan_phonebook ::
  "connection \<Rightarrow> jsval \<Rightarrow> (connection, jsval) outcome \<times> event list" where
  "scan_phonebook this arg =
     (case phonebookScanPublicListing (authApi (serverConfig this)) of
        Inl e \<Rightarrow> (Failure e, [PhonebookScanPublicListing])
      | Inr selfIdentBlobs \<Rightarrow> (Continue this selfIdentBlobs, [PhonebookScanPublicListing]))"

definition report_results_and_close ::
  "connection \<Rightarrow> jsval \<Rightarrow> (connection, jsval) outcome \<times> event list" where
  "report_results_and_close this selfIdentBlobs =
     (Continue this Undefined, [WriteMessage (Listing selfIdentBlobs), Close])"

definition PhonebookTask :: "connection \<Rightarrow> task_result \<times> event list" where
  "PhonebookTask c = runTask [scan_phonebook, report_results_and_close] c"

datatype implClass = SignupConnection | PhonebookServerConnection

record endpoint =
  ep_implClass :: implClass
  ep_serverConfig :: server_config
  authVerifier :: "string \<Rightarrow> string \<Rightarrow> bool"

text \<open>The \<open>endpoints\<close> of \<open>makeServerDef\<close> (its \<open>urls\<close> member is left out).\<close>

definition makeServerDef :: "server_config \<Rightarrow> (string \<times> endpoint) list" where
  "makeServerDef cfg =
     [(''signup.deuxdrop'',
       \<lparr>ep_implClass = SignupConnection, ep_serverConfig = cfg,
        authVerifier = (\<lambda>endpoint clientKey. True)\<rparr>),
      (''phonebook.deuxdrop'',
       \<lparr>ep_implClass = PhonebookServerConnection, ep_serverConfig = cfg,
        authVerifier = (\<lambda>endpoint clientKey. True)\<rparr>)]"

text \<open>What the peer sees of a run: the messages written and the close, in order.\<close>

fun peer_output :: "event list \<Rightarrow> event list" where
  "peer_output [] = []"
| "peer_output (WriteMessage m # es) = WriteMessage m # peer_output es"
| "peer_output (Close # es) = Close # peer_output es"
| "peer_output (e # es) = peer_output es"

subsection \<open>Observations on a run\<close>



text \<open>The calls to the account store a run made.\<close>

fun account_store_calls :: "event list \<Rightarrow> event list" where
  "account_store_calls [] = []"
| "account_store_calls (ServerCheckUserAccount k # es) =
     ServerCheckUserAccount k # account_store_calls es"
| "account_store_calls (ServerCreateUserAccount p a b d f # es) =
     ServerCreateUserAccount p a b d f # account_store_calls es"
| "account_store_calls (e # es) = account_store_calls es"

fun creations :: "event list \<Rightarrow> event list" where
  "creations [] = []"
| "creations (ServerCreateUserAccount p a b d f # es) =
     ServerCreateUserAccount p a b d f # creations es"
| "creations (e # es) = creations es"

text \<open>
  Every account creation in the trace comes after a check of the same root signing key;
  \<open>checked\<close> holds the keys checked so far.
\<close>

fun check_before_create :: "string list \<Rightarrow> event list \<Rightarrow> bool" where
  "check_before_create checked [] = True"
| "check_before_create checked (ServerCheckUserAccount k # es) =
     check_before_create (k # checked) es"
| "check_before_create checked (ServerCreateUserAccount p a b d f # es) =
     (root_rootSignPubKey p \<in> set checked \<and> check_before_create checked es)"
| "check_before_create checked (e # es) = check_before_create checked es"

text \<open>
  The error the soft-failure boundary of \<open>ValidateSignupRequestTask\<close> absorbs, if the
  validation fails.
\<close>

definition validation_failure ::
  "env \<Rightarrow> signup_msg \<Rightarrow> string \<Rightarrow> server_config \<Rightarrow> error option" where
  "validation_failure env m key cfg =
     (case runSteps [validateSelfIdent env, validateClientAuth env]
             \<lparr>v_msg = m, v_clientPublicKey = key, v_serverConfig = cfg,
              personSelfIdentPayload = None\<rparr> Undefined of
        (TaskFailed e, es) \<Rightarrow> Some e
      | (TaskDone v, es) \<Rightarrow> None)"

subsection \<open>A concrete server, identity and client\<close>

text \<open>
  Stand-ins for the collaborators, to run the task on: the self-ident blob always parses to
  Alice's payload with the given profile, a client authorization blob is the string of the
  key it authorizes, the account store answers \<open>existing\<close> and accepts every creation, and
  the chain verifier reports to one of the two callbacks (and, reporting later, does not
  hand the callback's exception back to its caller).
\<close>

definition alice :: "jsv \<Rightarrow> personSelfIdent" where
  "alice profile =
     \<lparr>transitServerIdent = ''server-self-ident'', poco = profile,
      root_longtermSignPubKey = ''alice-longterm-key'',
      root_rootSignPubKey = ''alice-root-key''\<rparr>"

definition store :: "bool \<Rightarrow> auth_api" where
  "store existing =
     \<lparr>serverCheckUserAccount = (\<lambda>k. Inr existing),
      serverCreateUserAccount = (\<lambda>p blob cam keyring info. Inr Undefined),
      phonebookScanPublicListing = Inr (Blobs [])\<rparr>"

definition server :: "bool \<Rightarrow> server_config" where
  "server existing = \<lparr>selfIdentBlob = ''server-self-ident'', authApi = store existing\<rparr>"

definition peer :: "bool \<Rightarrow> connection" where
  "peer existing = \<lparr>clientPublicKey = ''client-key'', serverConfig = server existing\<rparr>"

definition chain_error ::
  "jsv \<Rightarrow> nat \<Rightarrow> (jsv \<Rightarrow> principal \<Rightarrow> error + unit) \<Rightarrow> (jsv \<Rightarrow> error + unit) \<Rightarrow> error + unit" where
  "chain_error certs t success_cb error_cb =
     (case error_cb (Some (JStr ''expired'')) of Inl e \<Rightarrow> Inr () | Inr u \<Rightarrow> Inr ())"

definition chain_ok ::
  "string \<Rightarrow> jsv \<Rightarrow> nat \<Rightarrow> (jsv \<Rightarrow> principal \<Rightarrow> error + unit) \<Rightarrow> (jsv \<Rightarrow> error + unit)
     \<Rightarrow> error + unit" where
  "chain_ok address certs t success_cb error_cb =
     (case success_cb (Some (JStr ''chain-key'')) \<lparr>email = Some (JStr address)\<rparr> of
        Inl e \<Rightarrow> Inr ()
      | Inr u \<Rightarrow> Inr ())"

definition world ::
  "jsv \<Rightarrow> (jsv \<Rightarrow> nat \<Rightarrow> (jsv \<Rightarrow> principal \<Rightarrow> error + unit) \<Rightarrow> (jsv \<Rightarrow> error + unit) \<Rightarrow> error + unit)
     \<Rightarrow> bool \<Rightarrow> env" where
  "world profile chain q =
     \<lparr>assertGetPersonSelfIdent = (\<lambda>blob. Inr (alice profile)),
      assertCheckGetAttestation =
        (\<lambda>blob kind keys. case blob of JStr k \<Rightarrow> Inr \<lparr>authorizedKey = k\<rparr>
                                       | _ \<Rightarrow> Inl MalformedPayloadError),
      unbundleCertsAndAssertion = (\<lambda>a. Inr \<lparr>certificates = a, assertion = a\<rparr>),
      verifyChain = chain,
      jwt_parse = (\<lambda>a. Inr \<lparr>audience = ''jetpack-extension''\<rparr>),
      jwt_verify = (\<lambda>tok pk. Inr True),
      now = 0, Q_bound = q, when_bound = q, jwt_bound = q\<rparr>"

definition signup_bundle :: "json list \<Rightarrow> jsv \<Rightarrow> signup_msg" where
  "signup_bundle auths bc =
     \<lparr>selfIdent = Some (JStr ''alice-self-ident-blob''), clientAuths = Some (JArr auths),
      storeKeyring = Some (JStr ''keyring''), because = bc\<rparr>"

definition profile_named :: "string \<Rightarrow> jsv" where
  "profile_named n = Some (JObj [(''displayName'', JStr n)])"

text \<open>
  Profiles that also declare e-mail addresses: under \<open>emails\<close> only, and under both
  \<open>emails\<close> and \<open>email\<close>.
\<close>

definition profile_emails :: "json list \<Rightarrow> jsv" where
  "profile_emails addresses =
     Some (JObj [(''displayName'', JStr ''Alice''), (''emails'', JArr addresses)])"

definition profile_emails_email :: "json list \<Rightarrow> jsv" where
  "profile_emails_email addresses =
     Some (JObj [(''displayName'', JStr ''Alice''), (''emails'', JArr addresses),
                 (''email'', JArr addresses)])"

text \<open>A server that publishes another self-ident blob than the one Alice names.\<close>

definition other_peer :: connection where
  "other_peer =
     \<lparr>clientPublicKey = ''client-key'',
      serverConfig = \<lparr>selfIdentBlob = ''another-server-self-ident'', authApi = store False\<rparr>\<rparr>"

text \<open>
  The \<open>this\<close> of the task when it reaches \<open>checkOrGenerateChallenge\<close> for Alice's bundle
  sent by the authorized client.
\<close>

definition at_the_gate :: "jsv \<Rightarrow> jsv \<Rightarrow> process_this" where
  "at_the_gate profile bc =
     \<lparr>msg = signup_bundle [JStr ''client-key''] bc, conn = peer False,
      selfIdentPayload = Some (alice profile),
      clientAuthsMap = Some [(''client-key'', JStr ''client-key'')],
      challenges = [''none'', ''browserid'']\<rparr>"

section \<open>Properties\<close>

subsection \<open>The validator\<close>

lemma validate_shape:
  "ValidateSignupRequestTask env m k cfg = (Bool False, []) \<or>
   (\<exists>vb. ValidateSignupRequestTask env m k cfg = (ValidBits vb, []))"
  by (simp add: ValidateSignupRequestTask_def runSoftFailureTask_def validateSelfIdent_def
      validateClientAuth_def split: sum.splits option.splits json.splits prod.splits)

lemma validateSelfIdent_silent: "snd (validateSelfIdent env this v) = []"
  by (simp add: validateSelfIdent_def split: sum.splits)

lemma validateClientAuth_silent: "snd (validateClientAuth env this v) = []"
  by (simp add: validateClientAuth_def split: sum.splits option.splits json.splits prod.splits)

lemma validation_silent:
  "snd (runSteps [validateSelfIdent env, validateClientAuth env] this v) = []"
proof (cases "validateSelfIdent env this v")
  case (Pair o1 es1)
  with validateSelfIdent_silent [of env this v] have es1: "es1 = []" by simp
  show ?thesis
  proof (cases o1)
    case (Continue this' v')
    obtain o2 es2 where s2: "validateClientAuth env this' v' = (o2, es2)" by force
    with validateClientAuth_silent [of env this' v'] have "es2 = []" by simp
    with Pair es1 Continue s2 show ?thesis by (cases o2) simp_all
  qed (use Pair es1 in simp_all)
qed

lemma validation_failure_soft:
  assumes "validation_failure env m k cfg = Some e"
  shows "ValidateSignupRequestTask env m k cfg = (Bool False, [])"
proof -
  define this where "this = \<lparr>v_msg = m, v_clientPublicKey = k, v_serverConfig = cfg,
      personSelfIdentPayload = None\<rparr>"
  obtain r es where run: "runSteps [validateSelfIdent env, validateClientAuth env] this Undefined = (r, es)"
    by force
  with validation_silent [of env this Undefined] have "es = []" by simp
  moreover from assms run have "r = TaskFailed e"
    by (simp add: validation_failure_def this_def split: task_result.splits)
  ultimately show ?thesis using run
    by (simp add: ValidateSignupRequestTask_def runSoftFailureTask_def this_def)
qed

lemma clientAuthLoop_peer_not_named:
  "\<forall>b\<in>set blobs. \<exists>ca. assertCheckGetAttestation env b ''client'' keys = Inr ca \<and>
       authorizedKey ca \<noteq> peerKey \<Longrightarrow>
   \<exists>cam. clientAuthLoop env keys peerKey blobs found cam0 = Inr (found, cam)"
proof (induction blobs arbitrary: cam0)
  case Nil
  then show ?case by simp
next
  case (Cons b blobs)
  then obtain ca where ca: "assertCheckGetAttestation env b ''client'' keys = Inr ca"
    "authorizedKey ca \<noteq> peerKey" by auto
  from Cons.IH [of "js_assign (authorizedKey ca) b cam0"] Cons.prems
  obtain cam where "clientAuthLoop env keys peerKey blobs found
      (js_assign (authorizedKey ca) b cam0) = Inr (found, cam)" by auto
  with ca show ?case by simp
qed

subsection \<open>The challenge gate\<close>

text \<open>
  The BrowserID verifier hands back \<open>bad-browserid-assertion\<close> or \<open>undefined\<close>, or it
  throws; it never hands back a promise. So the gate collects no promise and never answers
  the peer itself: it lets the task go on, or it fails.
\<close>

lemma verifyBrowserId_outcomes:
  "verifyBrowserId env this a = Inr r \<Longrightarrow> r = Str CHALLENGE_INVALID_BROWSERID \<or> r = Undefined"
  by (auto simp: verifyBrowserId_def split: option.splits sum.splits if_splits)

lemma challengeLoop_collects_nothing:
  "challengeLoop env this kvs promises = Inr promises' \<Longrightarrow> promises' = promises"
proof (induction kvs arbitrary: promises)
  case Nil
  then show ?case by simp
next
  case (Cons kv kvs)
  obtain k v where kv: "kv = (k, v)" by (cases kv)
  show ?case
  proof (cases "k \<in> set (challenges this)")
    case False
    with Cons kv show ?thesis by simp
  next
    case True
    show ?thesis
    proof (cases "k = ''browserid''")
      case bid: True
      show ?thesis
      proof (cases "verifyBrowserId env this (Some v)")
        case (Inl e)
        with Cons.prems kv True bid show ?thesis by simp
      next
        case (Inr r)
        from verifyBrowserId_outcomes [OF Inr] have "\<not> isPromise r" by auto
        with Cons.prems Cons.IH kv True bid Inr show ?thesis
          by (simp split: if_splits)
      qed
    next
      case False
      with Cons.prems Cons.IH kv True show ?thesis by (simp split: if_splits)
    qed
  qed
qed

lemma gate_never_answers:
  "checkOrGenerateChallenge env this arg = (Continue this Undefined, []) \<or>
   (\<exists>e. checkOrGenerateChallenge env this arg = (Failure e, []))"
proof (cases "challengeLoop env this (own_props (because (msg this))) []")
  case (Inl e)
  then show ?thesis by (simp add: checkOrGenerateChallenge_def)
next
  case (Inr ps)
  with challengeLoop_collects_nothing [OF Inr] show ?thesis
    by (simp add: checkOrGenerateChallenge_def)
qed

subsection \<open>The shape of a run\<close>

lemma signup_shape:
  "(\<exists>e. doTheSignup this arg = (Failure e, [])) \<or>
   (\<exists>p a b d f. selfIdentPayload this = Some p \<and>
      ((\<exists>e. doTheSignup this arg = (Failure e, [ServerCreateUserAccount p a b d f])) \<or>
       (\<exists>v. doTheSignup this arg = (Continue this v, [ServerCreateUserAccount p a b d f]))))"
  by (simp add: doTheSignup_def Let_def split: sum.splits option.splits)

lemma process_invalid:
  assumes "ValidateSignupRequestTask env m (clientPublicKey c) (serverConfig c) = (Bool False, [])"
  shows "ProcessSignupTask env m c =
           (TaskDone Undefined, [WriteMessage (Challenge (Str CHALLENGE_NEVER)), Close])"
  using assms
  by (simp add: ProcessSignupTask_def runTask_def validateSignupRequest_def
      dealWithInvalidRequest_def respondWithChallenge_def)

lemma process_valid:
  assumes "ValidateSignupRequestTask env m (clientPublicKey c) (serverConfig c) = (ValidBits vb, [])"
  shows "ProcessSignupTask env m c =
     (let p = vb_selfIdentPayload vb; k = root_rootSignPubKey p;
          this1 = \<lparr>msg = m, conn = c, selfIdentPayload = Some p,
                     clientAuthsMap = Some (vb_clientAuthsMap vb), challenges = []\<rparr>;
          this2 = this1\<lparr>challenges := [''none'', ''browserid'']\<rparr>
      in case serverCheckUserAccount (authApi (serverConfig c)) k of
           Inl e \<Rightarrow> (TaskFailed e, [ServerCheckUserAccount k])
         | Inr hasAccount \<Rightarrow>
             if hasAccount
             then (TaskDone Undefined,
                   [ServerCheckUserAccount k,
                    WriteMessage (Challenge (Str CHALLENGE_ALREADY_SIGNED_UP)), Close])
             else
               (case checkOrGenerateChallenge env this2 Undefined of
                  (Continue this3 v, es) \<Rightarrow>
                    (case doTheSignup this3 v of
                       (Continue this4 v', es') \<Rightarrow>
                         (TaskDone Undefined,
                          ServerCheckUserAccount k # es @ es' @ [WriteMessage SignedUp, Close])
                     | (EarlyReturn v', es') \<Rightarrow> (TaskDone v', ServerCheckUserAccount k # es @ es')
                     | (Failure e, es') \<Rightarrow> (TaskFailed e, ServerCheckUserAccount k # es @ es'))
                | (EarlyReturn v, es) \<Rightarrow> (TaskDone v, ServerCheckUserAccount k # es)
                | (Failure e, es) \<Rightarrow> (TaskFailed e, ServerCheckUserAccount k # es)))"
  using assms
  by (simp add: ProcessSignupTask_def runTask_def validateSignupRequest_def
      dealWithInvalidRequest_def checkForExistingAccount_def verifyNoExistingAccount_def
      determineChallenges_def tellThemTheyAreSignedUp_def respondWithChallenge_def Let_def
      split: sum.splits prod.splits outcome.splits)

lemma process_shapes:
  fixes env m c
  defines "r \<equiv> fst (ProcessSignupTask env m c)" and "tr \<equiv> snd (ProcessSignupTask env m c)"
    and "chk \<equiv> serverCheckUserAccount (authApi (serverConfig c))"
  shows
   "(r = TaskDone Undefined \<and> tr = [WriteMessage (Challenge (Str CHALLENGE_NEVER)), Close])
  \<or> (\<exists>k e. r = TaskFailed e \<and> tr = [ServerCheckUserAccount k] \<and> chk k \<noteq> Inr True)
  \<or> (\<exists>k. r = TaskDone Undefined \<and> chk k = Inr True \<and>
        tr = [ServerCheckUserAccount k,
              WriteMessage (Challenge (Str CHALLENGE_ALREADY_SIGNED_UP)), Close])
  \<or> (\<exists>p a b d f e. r = TaskFailed e \<and> chk (root_rootSignPubKey p) = Inr False \<and>
        tr = [ServerCheckUserAccount (root_rootSignPubKey p), ServerCreateUserAccount p a b d f])
  \<or> (\<exists>p a b d f. r = TaskDone Undefined \<and> chk (root_rootSignPubKey p) = Inr False \<and>
        tr = [ServerCheckUserAccount (root_rootSignPubKey p), ServerCreateUserAccount p a b d f,
              WriteMessage SignedUp, Close])"
proof -
  from validate_shape [of env m "clientPublicKey c" "serverConfig c"]
  consider (invalid) "ValidateSignupRequestTask env m (clientPublicKey c) (serverConfig c) = (Bool False, [])"
    | (valid) vb where "ValidateSignupRequestTask env m (clientPublicKey c) (serverConfig c) = (ValidBits vb, [])"
    by blast
  then show ?thesis
  proof cases
    case invalid
    from process_invalid [OF invalid] show ?thesis by (simp add: r_def tr_def)
  next
    case valid
    define p where "p = vb_selfIdentPayload vb"
    define this2 where "this2 = \<lparr>msg = m, conn = c, selfIdentPayload = Some p,
        clientAuthsMap = Some (vb_clientAuthsMap vb), challenges = [''none'', ''browserid'']\<rparr>"
    note pv = process_valid [OF valid, unfolded Let_def, folded p_def, simplified]
    show ?thesis
    proof (cases "chk (root_rootSignPubKey p)")
      case (Inl e)
      with pv show ?thesis by (simp add: r_def tr_def chk_def)
    next
      case (Inr hasAccount)
      show ?thesis
      proof (cases hasAccount)
        case True
        with Inr pv show ?thesis by (simp add: r_def tr_def chk_def)
      next
        case False
        from gate_never_answers [of env this2 Undefined]
        consider (pass) "checkOrGenerateChallenge env this2 Undefined = (Continue this2 Undefined, [])"
          | (fail) e where "checkOrGenerateChallenge env this2 Undefined = (Failure e, [])"
          by blast
        then show ?thesis
        proof cases
          case pass
          have sp: "selfIdentPayload this2 = Some p" by (simp add: this2_def)
          from signup_shape [of this2 Undefined] sp
          consider (f0) e where "doTheSignup this2 Undefined = (Failure e, [])"
            | (f1) a b d f e where "doTheSignup this2 Undefined = (Failure e, [ServerCreateUserAccount p a b d f])"
            | (ok) a b d f v where "doTheSignup this2 Undefined = (Continue this2 v, [ServerCreateUserAccount p a b d f])"
            by auto
          then show ?thesis
          proof cases
            case f0
            with pass False Inr pv show ?thesis by (simp add: r_def tr_def chk_def this2_def)
          next
            case f1
            with pass False Inr pv show ?thesis by (simp add: r_def tr_def chk_def this2_def)
          next
            case ok
            with pass False Inr pv show ?thesis by (simp add: r_def tr_def chk_def this2_def)
          qed
        next
          case fail
          with False Inr pv show ?thesis by (simp add: r_def tr_def chk_def this2_def)
        qed
      qed
    qed
  qed
qed

subsection \<open>The claims\<close>

text \<open>
  Claim C1. With \<open>none\<close> in the challenge catalog the gate is to pass whatever the
  \<open>because\<close> payload holds. The task computes \<open>passed\<close> and never reads it: a \<open>browserid\<close>
  entry is verified all the same. For Alice's valid bundle, with no account on file, a
  profile without \<open>emails\<close> and a \<open>browserid\<close> entry in \<open>because\<close>, the loop of the gate
  stops with a \<open>ReferenceError\<close> and the task fails after the account check, without
  provisioning, whether or not \<open>$Q\<close> is bound.
\<close>

theorem none_in_catalog_still_consults_browserid:
  "''none'' \<in> set (challenges (at_the_gate (profile_named ''Alice'')
      (Some (JObj [(''browserid'', JStr ''junk'')])))) \<and>
   validation_failure (world (profile_named ''Alice'') chain_error True)
     (signup_bundle [JStr ''client-key''] (Some (JObj [(''browserid'', JStr ''junk'')])))
     ''client-key'' (server False) = None \<and>
   challengeLoop (world (profile_named ''Alice'') chain_error True)
     (at_the_gate (profile_named ''Alice'') (Some (JObj [(''browserid'', JStr ''junk'')])))
     [(''browserid'', JStr ''junk'')] [] = Inl ReferenceError \<and>
   ProcessSignupTask (world (profile_named ''Alice'') chain_error True)
     (signup_bundle [JStr ''client-key''] (Some (JObj [(''browserid'', JStr ''junk'')])))
     (peer False) = (TaskFailed ReferenceError, [ServerCheckUserAccount ''alice-root-key'']) \<and>
   ProcessSignupTask (world (profile_named ''Alice'') chain_error False)
     (signup_bundle [JStr ''client-key''] (Some (JObj [(''browserid'', JStr ''junk'')])))
     (peer False) = (TaskFailed ReferenceError, [ServerCheckUserAccount ''alice-root-key''])"
  by code_simp


text \<open>
  Claim C2. Take a bundle whose self-ident passes \<open>validateSelfIdent\<close> and whose client
  authorizations all check against the identity's long-term key, none of them naming the
  connected peer's key; take any other request (to any server) whose validation fails with
  a \<open>MalformedPayloadError\<close>. The first fails with \<open>UnauthorizedUserDataLeakError\<close>, and
  the two runs of the signup task are equal in everything they do: the single message
  \<open>{type: 'challenge', challenge: {mechanism: 'never'}}\<close>, then the close.
\<close>

theorem leak_response_equals_malformed_response:
  assumes parse: "assertGetPersonSelfIdent env (selfIdent m1) = Inr p"
    and transit: "transitServerIdent p = selfIdentBlob (serverConfig c1)"
    and name: "hasOwnProperty (poco p) ''displayName'' = Inr True"
    and auths: "clientAuths m1 = Some (JArr blobs)" "blobs \<noteq> []"
    and verify: "\<forall>b\<in>set blobs. \<exists>ca.
        assertCheckGetAttestation env b ''client'' [root_longtermSignPubKey p] = Inr ca \<and>
        authorizedKey ca \<noteq> clientPublicKey c1"
    and malformed: "validation_failure env2 m2 (clientPublicKey c2) (serverConfig c2) =
        Some MalformedPayloadError"
  shows "validation_failure env m1 (clientPublicKey c1) (serverConfig c1) =
           Some UnauthorizedUserDataLeakError \<and>
         ProcessSignupTask env m1 c1 = ProcessSignupTask env2 m2 c2 \<and>
         ProcessSignupTask env m1 c1 =
           (TaskDone Undefined, [WriteMessage (Challenge (Str ''never'')), Close])"
proof -
  from clientAuthLoop_peer_not_named [OF verify, of False "[]"]
  obtain cam where loop: "clientAuthLoop env [root_longtermSignPubKey p] (clientPublicKey c1)
      blobs False [] = Inr (False, cam)" by blast
  have leak: "validation_failure env m1 (clientPublicKey c1) (serverConfig c1) =
      Some UnauthorizedUserDataLeakError"
    using parse transit name auths loop
    by (simp add: validation_failure_def validateSelfIdent_def validateClientAuth_def)
  have r1: "ProcessSignupTask env m1 c1 =
      (TaskDone Undefined, [WriteMessage (Challenge (Str ''never'')), Close])"
    using process_invalid [OF validation_failure_soft [OF leak]]
    by (simp add: CHALLENGE_NEVER_def)
  have r2: "ProcessSignupTask env2 m2 c2 =
      (TaskDone Undefined, [WriteMessage (Challenge (Str ''never'')), Close])"
    using process_invalid [OF validation_failure_soft [OF malformed]]
    by (simp add: CHALLENGE_NEVER_def)
  from leak r1 r2 show ?thesis by simp
qed

text \<open>The theorem at a concrete request.\<close>

theorem leak_response_equals_malformed_response_witness:
  "assertGetPersonSelfIdent (world (profile_named ''Alice'') chain_error True)
     (selfIdent (signup_bundle [JStr ''stolen-key'', JStr ''other-key''] None)) =
     Inr (alice (profile_named ''Alice'')) \<and>
   validation_failure (world (profile_named ''Alice'') chain_error True)
     (signup_bundle [] None) ''client-key'' (server False) = Some MalformedPayloadError \<and>
   ProcessSignupTask (world (profile_named ''Alice'') chain_error True)
     (signup_bundle [JStr ''stolen-key'', JStr ''other-key''] None) (peer False) =
   ProcessSignupTask (world (profile_named ''Alice'') chain_error True)
     (signup_bundle [] None) (peer False)"
proof -
  let ?W = "world (profile_named ''Alice'') chain_error True"
  let ?m1 = "signup_bundle [JStr ''stolen-key'', JStr ''other-key''] None"
  let ?p = "alice (profile_named ''Alice'')"
  have parse: "assertGetPersonSelfIdent ?W (selfIdent ?m1) = Inr ?p"
    by (simp add: world_def)
  have transit: "transitServerIdent ?p = selfIdentBlob (serverConfig (peer False))"
    by (simp add: alice_def peer_def server_def)
  have name: "hasOwnProperty (poco ?p) ''displayName'' = Inr True"
    by (simp add: alice_def profile_named_def)
  have auths: "clientAuths ?m1 = Some (JArr [JStr ''stolen-key'', JStr ''other-key''])"
    "[JStr ''stolen-key'', JStr ''other-key''] \<noteq> []"
    by (simp_all add: signup_bundle_def)
  have verify: "\<forall>b\<in>set [JStr ''stolen-key'', JStr ''other-key'']. \<exists>ca.
      assertCheckGetAttestation ?W b ''client'' [root_longtermSignPubKey ?p] = Inr ca \<and>
      authorizedKey ca \<noteq> clientPublicKey (peer False)"
    by (simp add: world_def peer_def)
  have malformed: "validation_failure ?W (signup_bundle [] None) (clientPublicKey (peer False))
      (serverConfig (peer False)) = Some MalformedPayloadError"
    by (simp add: validation_failure_def validateSelfIdent_def validateClientAuth_def world_def
        signup_bundle_def alice_def profile_named_def peer_def server_def)
  from leak_response_equals_malformed_response [OF parse transit name auths verify malformed]
    parse malformed
  show ?thesis by (simp add: peer_def)
qed

text \<open>
  Claim C3. If the self-ident payload names a transit server that is not string-equal to
  the server's own \<open>selfIdentBlob\<close>, the validation fails with \<open>KeyMismatchError\<close>, the
  task answers \<open>{mechanism: 'never'}\<close> and closes, and the run contains no call of the
  account store, neither \<open>serverCheckUserAccount\<close> nor \<open>serverCreateUserAccount\<close>.
\<close>

theorem transit_mismatch_never:
  assumes parse: "assertGetPersonSelfIdent env (selfIdent m) = Inr p"
    and mismatch: "transitServerIdent p \<noteq> selfIdentBlob (serverConfig c)"
  shows "validation_failure env m (clientPublicKey c) (serverConfig c) = Some KeyMismatchError \<and>
         ProcessSignupTask env m c =
           (TaskDone Undefined, [WriteMessage (Challenge (Str ''never'')), Close]) \<and>
         account_store_calls (snd (ProcessSignupTask env m c)) = []"
proof -
  have km: "validation_failure env m (clientPublicKey c) (serverConfig c) = Some KeyMismatchError"
    using parse mismatch by (simp add: validation_failure_def validateSelfIdent_def)
  from process_invalid [OF validation_failure_soft [OF km]] km
  show ?thesis by (simp add: CHALLENGE_NEVER_def)
qed

text \<open>The theorem at a concrete request.\<close>

theorem transit_mismatch_never_witness:
  "assertGetPersonSelfIdent (world (profile_named ''Alice'') chain_error True)
     (selfIdent (signup_bundle [JStr ''client-key''] None)) = Inr (alice (profile_named ''Alice'')) \<and>
   transitServerIdent (alice (profile_named ''Alice'')) \<noteq> selfIdentBlob (serverConfig other_peer) \<and>
   ProcessSignupTask (world (profile_named ''Alice'') chain_error True)
     (signup_bundle [JStr ''client-key''] None) other_peer =
     (TaskDone Undefined, [WriteMessage (Challenge (Str ''never'')), Close])"
proof -
  have parse: "assertGetPersonSelfIdent (world (profile_named ''Alice'') chain_error True)
     (selfIdent (signup_bundle [JStr ''client-key''] None)) = Inr (alice (profile_named ''Alice''))"
    by (simp add: world_def)
  have mismatch: "transitServerIdent (alice (profile_named ''Alice'')) \<noteq>
      selfIdentBlob (serverConfig other_peer)"
    by (simp add: alice_def other_peer_def)
  from transit_mismatch_never [OF parse mismatch] parse mismatch show ?thesis by simp
qed

text \<open>
  Claim C4. In every run of the signup task each \<open>serverCreateUserAccount\<close> comes after a
  \<open>serverCheckUserAccount\<close> of the same root signing key; and when the check made in the
  run reports an existing account, the task answers \<open>{mechanism: 'already-signed-up'}\<close>,
  closes, and creates nothing.
\<close>

theorem check_precedes_create:
  "check_before_create [] (snd (ProcessSignupTask env m c)) \<and>
   (ServerCheckUserAccount k \<in> set (snd (ProcessSignupTask env m c)) \<and>
    serverCheckUserAccount (authApi (serverConfig c)) k = Inr True \<longrightarrow>
      ProcessSignupTask env m c =
        (TaskDone Undefined,
         [ServerCheckUserAccount k, WriteMessage (Challenge (Str ''already-signed-up'')), Close]) \<and>
      creations (snd (ProcessSignupTask env m c)) = [])"
  using process_shapes [of env m c]
  by (cases "ProcessSignupTask env m c")
     (auto simp: CHALLENGE_ALREADY_SIGNED_UP_def CHALLENGE_NEVER_def)

text \<open>The theorem at a concrete request.\<close>

theorem check_precedes_create_witness:
  "ServerCheckUserAccount ''alice-root-key'' \<in>
     set (snd (ProcessSignupTask (world (profile_named ''Alice'') chain_error True)
                (signup_bundle [JStr ''client-key''] None) (peer True))) \<and>
   serverCheckUserAccount (authApi (serverConfig (peer True))) ''alice-root-key'' = Inr True \<and>
   ProcessSignupTask (world (profile_named ''Alice'') chain_error True)
     (signup_bundle [JStr ''client-key''] None) (peer True) =
     (TaskDone Undefined,
      [ServerCheckUserAccount ''alice-root-key'',
       WriteMessage (Challenge (Str ''already-signed-up'')), Close])"
proof -
  have called: "ServerCheckUserAccount ''alice-root-key'' \<in>
     set (snd (ProcessSignupTask (world (profile_named ''Alice'') chain_error True)
                (signup_bundle [JStr ''client-key''] None) (peer True)))"
    by code_simp
  have answer: "serverCheckUserAccount (authApi (serverConfig (peer True))) ''alice-root-key'' = Inr True"
    by (simp add: peer_def server_def store_def)
  from check_precedes_create [of "world (profile_named ''Alice'') chain_error True"
      "signup_bundle [JStr ''client-key''] None" "peer True" "''alice-root-key''"] called answer
  show ?thesis by simp
qed



text \<open>
  Claim C6. A BrowserID response whose bundle unpacks and whose chain fails verification
  is to be answered \<open>server-problem-try-again-later\<close>. For a validated profile with one
  e-mail address under \<open>emails\<close>, the verifier throws a \<open>TypeError\<close> at \<open>poco.email[0]\<close>
  before it looks at the assertion, and the task fails without a message. When the profile
  also has an \<open>email\<close> member, the error callback throws at \<open>deferred.resolve\<close>, the
  verifier returns \<open>undefined\<close>, and the signup goes through: \<open>signedUp\<close> is written.
\<close>

theorem chain_error_never_reported:
  "verifyBrowserId (world (profile_emails [JStr ''alice@example.org'']) chain_error True)
     (at_the_gate (profile_emails [JStr ''alice@example.org''])
        (Some (JObj [(''browserid'', JStr ''assertion'')])))
     (Some (JStr ''assertion'')) = Inl TypeError \<and>
   ProcessSignupTask (world (profile_emails [JStr ''alice@example.org'']) chain_error True)
     (signup_bundle [JStr ''client-key''] (Some (JObj [(''browserid'', JStr ''assertion'')])))
     (peer False) = (TaskFailed TypeError, [ServerCheckUserAccount ''alice-root-key'']) \<and>
   errorCB (Some (JStr ''expired'')) = Inl TypeError \<and>
   verifyBrowserId (world (profile_emails_email [JStr ''alice@example.org'']) chain_error True)
     (at_the_gate (profile_emails_email [JStr ''alice@example.org''])
        (Some (JObj [(''browserid'', JStr ''assertion'')])))
     (Some (JStr ''assertion'')) = Inr Undefined \<and>
   peer_output (snd (ProcessSignupTask (world (profile_emails_email [JStr ''alice@example.org'']) chain_error True)
     (signup_bundle [JStr ''client-key''] (Some (JObj [(''browserid'', JStr ''assertion'')])))
     (peer False))) = [WriteMessage SignedUp, Close]"
  by code_simp


text \<open>
  Claim C7. A BrowserID response whose chain verifies for a principal with another e-mail
  address than the profile's is to be answered \<open>bad-browserid-assertion\<close>. For a
  validated profile with one address under \<open>emails\<close>, the verifier throws a \<open>TypeError\<close> at
  \<open>poco.email[0]\<close> and the task fails without a message. When the profile also has an
  \<open>email\<close> member, the success callback reaches the comparison, throws at
  \<open>deferred.resolve\<close>, the verifier returns \<open>undefined\<close>, and the signup goes through.
\<close>

theorem email_mismatch_never_reported:
  "verifyBrowserId (world (profile_emails [JStr ''alice@example.org'']) (chain_ok ''mallory@example.org'') True)
     (at_the_gate (profile_emails [JStr ''alice@example.org''])
        (Some (JObj [(''browserid'', JStr ''assertion'')])))
     (Some (JStr ''assertion'')) = Inl TypeError \<and>
   ProcessSignupTask (world (profile_emails [JStr ''alice@example.org'']) (chain_ok ''mallory@example.org'') True)
     (signup_bundle [JStr ''client-key''] (Some (JObj [(''browserid'', JStr ''assertion'')])))
     (peer False) = (TaskFailed TypeError, [ServerCheckUserAccount ''alice-root-key'']) \<and>
   successCB (world (profile_emails_email [JStr ''alice@example.org'']) (chain_ok ''mallory@example.org'') True)
     \<lparr>certificates = Some (JStr ''assertion''), assertion = Some (JStr ''assertion'')\<rparr>
     (Some (JStr ''alice@example.org'')) (Some (JStr ''chain-key''))
     \<lparr>email = Some (JStr ''mallory@example.org'')\<rparr> = Inl TypeError \<and>
   verifyBrowserId (world (profile_emails_email [JStr ''alice@example.org'']) (chain_ok ''mallory@example.org'') True)
     (at_the_gate (profile_emails_email [JStr ''alice@example.org''])
        (Some (JObj [(''browserid'', JStr ''assertion'')])))
     (Some (JStr ''assertion'')) = Inr Undefined \<and>
   peer_output (snd (ProcessSignupTask (world (profile_emails_email [JStr ''alice@example.org'']) (chain_ok ''mallory@example.org'') True)
     (signup_bundle [JStr ''client-key''] (Some (JObj [(''browserid'', JStr ''assertion'')])))
     (peer False))) = [WriteMessage SignedUp, Close]"
  by code_simp

text \<open>
  Claim C8. A failing outcome that a verifier returns synchronously is to be issued to the
  peer at once. For a profile with two addresses the BrowserID verifier returns
  \<open>bad-browserid-assertion\<close> synchronously; the loop then evaluates the undeclared
  \<open>problemo\<close>, which throws a \<open>ReferenceError\<close>: the task fails and nothing is written.
\<close>

theorem synchronous_failure_not_issued:
  "verifyBrowserId (world (profile_emails [JStr ''alice@example.org'', JStr ''al@example.org'']) chain_error True)
     (at_the_gate (profile_emails [JStr ''alice@example.org'', JStr ''al@example.org''])
        (Some (JObj [(''browserid'', JStr ''assertion'')])))
     (Some (JStr ''assertion'')) = Inr (Str ''bad-browserid-assertion'') \<and>
   challengeLoop (world (profile_emails [JStr ''alice@example.org'', JStr ''al@example.org'']) chain_error True)
     (at_the_gate (profile_emails [JStr ''alice@example.org'', JStr ''al@example.org''])
        (Some (JObj [(''browserid'', JStr ''assertion'')])))
     [(''browserid'', JStr ''assertion'')] [] = Inl ReferenceError \<and>
   ProcessSignupTask (world (profile_emails [JStr ''alice@example.org'', JStr ''al@example.org'']) chain_error True)
     (signup_bundle [JStr ''client-key''] (Some (JObj [(''browserid'', JStr ''assertion'')])))
     (peer False) = (TaskFailed ReferenceError, [ServerCheckUserAccount ''alice-root-key''])"
  by code_simp


text \<open>
  Claim C9, as stated, fails: a profile whose \<open>displayName\<close> is the empty string passes
  the validation, and the signup goes through to \<open>signedUp\<close>.
\<close>

theorem empty_displayName_accepted:
  "get_prop (poco (alice (profile_named ''''))) ''displayName'' = Inr (Some (JStr '''')) \<and>
   validation_failure (world (profile_named '''') chain_error True)
     (signup_bundle [JStr ''client-key''] None) ''client-key'' (server False) = None \<and>
   fst (ValidateSignupRequestTask (world (profile_named '''') chain_error True)
     (signup_bundle [JStr ''client-key''] None) ''client-key'' (server False)) \<noteq> Bool False \<and>
   peer_output (snd (ProcessSignupTask (world (profile_named '''') chain_error True)
     (signup_bundle [JStr ''client-key''] None) (peer False))) = [WriteMessage SignedUp, Close]"
  by code_simp

text \<open>
  Claim C9, amended. For a bundle whose self-ident parses and names this server, the
  \<open>displayName\<close> check of \<open>validateSelfIdent\<close> is the call
  \<open>poco.hasOwnProperty("displayName")\<close> and nothing more. When the call returns false (the
  profile has no own \<open>displayName\<close> property) the step fails with
  \<open>MalformedPayloadError\<close>; when the call itself throws (the profile is \<open>null\<close> or
  \<open>undefined\<close>, or has an own member named \<open>hasOwnProperty\<close>) the step fails with that
  \<open>TypeError\<close>; either way the validator resolves with \<open>false\<close> and the task answers
  \<open>{mechanism: 'never'}\<close>. When the call returns true the step passes, whatever the value
  of \<open>displayName\<close>, the empty string included.
\<close>

theorem displayName_presence_decides:
  assumes parse: "assertGetPersonSelfIdent env (selfIdent m) = Inr p"
    and transit: "transitServerIdent p = selfIdentBlob (serverConfig c)"
  shows "fst (validateSelfIdent env
                \<lparr>v_msg = m, v_clientPublicKey = clientPublicKey c,
                 v_serverConfig = serverConfig c, personSelfIdentPayload = None\<rparr> Undefined) =
           (case hasOwnProperty (poco p) ''displayName'' of
              Inr True \<Rightarrow>
                Continue \<lparr>v_msg = m, v_clientPublicKey = clientPublicKey c,
                          v_serverConfig = serverConfig c,
                          personSelfIdentPayload = Some p\<rparr> Undefined
            | Inr False \<Rightarrow> Failure MalformedPayloadError
            | Inl e \<Rightarrow> Failure e) \<and>
         (hasOwnProperty (poco p) ''displayName'' \<noteq> Inr True \<longrightarrow>
            validation_failure env m (clientPublicKey c) (serverConfig c) =
              Some (case hasOwnProperty (poco p) ''displayName'' of
                      Inr has \<Rightarrow> MalformedPayloadError
                    | Inl e \<Rightarrow> e) \<and>
            ValidateSignupRequestTask env m (clientPublicKey c) (serverConfig c) =
              (Bool False, []) \<and>
            ProcessSignupTask env m c =
              (TaskDone Undefined, [WriteMessage (Challenge (Str ''never'')), Close]))"
proof -
  have step: "fst (validateSelfIdent env
                \<lparr>v_msg = m, v_clientPublicKey = clientPublicKey c,
                 v_serverConfig = serverConfig c, personSelfIdentPayload = None\<rparr> Undefined) =
           (case hasOwnProperty (poco p) ''displayName'' of
              Inr True \<Rightarrow>
                Continue \<lparr>v_msg = m, v_clientPublicKey = clientPublicKey c,
                          v_serverConfig = serverConfig c,
                          personSelfIdentPayload = Some p\<rparr> Undefined
            | Inr False \<Rightarrow> Failure MalformedPayloadError
            | Inl e \<Rightarrow> Failure e)"
    using parse transit by (simp add: validateSelfIdent_def split: sum.splits)
  have rej: "validation_failure env m (clientPublicKey c) (serverConfig c) =
      Some (case hasOwnProperty (poco p) ''displayName'' of
              Inr has \<Rightarrow> MalformedPayloadError
            | Inl e \<Rightarrow> e)" if "hasOwnProperty (poco p) ''displayName'' \<noteq> Inr True"
    using parse transit that
    by (simp add: validation_failure_def validateSelfIdent_def split: sum.splits)
  from step rej validation_failure_soft process_invalid show ?thesis
    by (auto simp: CHALLENGE_NEVER_def)
qed

text \<open>The theorem at concrete requests.\<close>

theorem displayName_presence_decides_witness:
  "assertGetPersonSelfIdent (world (Some (JObj [])) chain_error True)
     (selfIdent (signup_bundle [JStr ''client-key''] None)) = Inr (alice (Some (JObj []))) \<and>
   transitServerIdent (alice (Some (JObj []))) = selfIdentBlob (serverConfig (peer False)) \<and>
   validation_failure (world (Some (JObj [])) chain_error True)
     (signup_bundle [JStr ''client-key''] None) (clientPublicKey (peer False))
     (serverConfig (peer False)) = Some MalformedPayloadError \<and>
   ProcessSignupTask (world (Some (JObj [])) chain_error True)
     (signup_bundle [JStr ''client-key''] None) (peer False) =
     (TaskDone Undefined, [WriteMessage (Challenge (Str ''never'')), Close]) \<and>
   fst (validateSelfIdent (world (profile_named '''') chain_error True)
          \<lparr>v_msg = signup_bundle [JStr ''client-key''] None,
           v_clientPublicKey = clientPublicKey (peer False),
           v_serverConfig = serverConfig (peer False), personSelfIdentPayload = None\<rparr>
          Undefined) =
     Continue \<lparr>v_msg = signup_bundle [JStr ''client-key''] None,
               v_clientPublicKey = clientPublicKey (peer False),
               v_serverConfig = serverConfig (peer False),
               personSelfIdentPayload = Some (alice (profile_named ''''))\<rparr> Undefined \<and>
   validation_failure
     (world (Some (JObj [(''hasOwnProperty'', JNum 1), (''displayName'', JStr ''Alice'')]))
        chain_error True)
     (signup_bundle [JStr ''client-key''] None) (clientPublicKey (peer False))
     (serverConfig (peer False)) = Some TypeError \<and>
   ProcessSignupTask
     (world (Some (JObj [(''hasOwnProperty'', JNum 1), (''displayName'', JStr ''Alice'')]))
        chain_error True)
     (signup_bundle [JStr ''client-key''] None) (peer False) =
     (TaskDone Undefined, [WriteMessage (Challenge (Str ''never'')), Close]) \<and>
   validation_failure (world (Some JNull) chain_error True)
     (signup_bundle [JStr ''client-key''] None) (clientPublicKey (peer False))
     (serverConfig (peer False)) = Some TypeError \<and>
   ProcessSignupTask (world (Some JNull) chain_error True)
     (signup_bundle [JStr ''client-key''] None) (peer False) =
     (TaskDone Undefined, [WriteMessage (Challenge (Str ''never'')), Close])"
proof -
  let ?m = "signup_bundle [JStr ''client-key''] None"
  have parse: "assertGetPersonSelfIdent (world P chain_error True) (selfIdent ?m) = Inr (alice P)"
    for P by (simp add: world_def)
  have transit: "transitServerIdent (alice P) = selfIdentBlob (serverConfig (peer False))"
    for P by (simp add: alice_def peer_def server_def)
  have absent: "hasOwnProperty (poco (alice (Some (JObj [])))) ''displayName'' = Inr False"
    by (simp add: alice_def)
  have present: "hasOwnProperty (poco (alice (profile_named ''''))) ''displayName'' = Inr True"
    by (simp add: alice_def profile_named_def)
  have shadowed: "hasOwnProperty (poco (alice (Some (JObj [(''hasOwnProperty'', JNum 1),
      (''displayName'', JStr ''Alice'')])))) ''displayName'' = Inl TypeError"
    by (simp add: alice_def)
  have null: "hasOwnProperty (poco (alice (Some JNull))) ''displayName'' = Inl TypeError"
    by (simp add: alice_def)
  from displayName_presence_decides [OF parse transit, of "Some (JObj [])"] absent
  have w1: "validation_failure (world (Some (JObj [])) chain_error True) ?m
      (clientPublicKey (peer False)) (serverConfig (peer False)) = Some MalformedPayloadError"
    "ProcessSignupTask (world (Some (JObj [])) chain_error True) ?m (peer False) =
      (TaskDone Undefined, [WriteMessage (Challenge (Str ''never'')), Close])"
    by simp_all
  from displayName_presence_decides [OF parse transit, of "profile_named ''''"] present
  have w2: "fst (validateSelfIdent (world (profile_named '''') chain_error True)
          \<lparr>v_msg = ?m, v_clientPublicKey = clientPublicKey (peer False),
           v_serverConfig = serverConfig (peer False), personSelfIdentPayload = None\<rparr>
          Undefined) =
     Continue \<lparr>v_msg = ?m, v_clientPublicKey = clientPublicKey (peer False),
               v_serverConfig = serverConfig (peer False),
               personSelfIdentPayload = Some (alice (profile_named ''''))\<rparr> Undefined"
    by simp
  from displayName_presence_decides [OF parse transit,
      of "Some (JObj [(''hasOwnProperty'', JNum 1), (''displayName'', JStr ''Alice'')])"] shadowed
  have w3: "validation_failure
      (world (Some (JObj [(''hasOwnProperty'', JNum 1), (''displayName'', JStr ''Alice'')]))
         chain_error True) ?m
      (clientPublicKey (peer False)) (serverConfig (peer False)) = Some TypeError"
    "ProcessSignupTask
      (world (Some (JObj [(''hasOwnProperty'', JNum 1), (''displayName'', JStr ''Alice'')]))
         chain_error True) ?m (peer False) =
      (TaskDone Undefined, [WriteMessage (Challenge (Str ''never'')), Close])"
    by simp_all
  from displayName_presence_decides [OF parse transit, of "Some JNull"] null
  have w4: "validation_failure (world (Some JNull) chain_error True) ?m
      (clientPublicKey (peer False)) (serverConfig (peer False)) = Some TypeError"
    "ProcessSignupTask (world (Some JNull) chain_error True) ?m (peer False) =
      (TaskDone Undefined, [WriteMessage (Challenge (Str ''never'')), Close])"
    by simp_all
  from parse [of "Some (JObj [])"] transit [of "Some (JObj [])"] w1 w2 w3 w4
  show ?thesis by simp
qed

text \<open>
  Claim C10. The server definition has the two endpoints \<open>signup.deuxdrop\<close> and
  \<open>phonebook.deuxdrop\<close>, and the \<open>authVerifier\<close> of each returns true for every endpoint
  name and every client key.
\<close>

theorem authVerifier_accepts_everyone:
  "map fst (makeServerDef cfg) = [''signup.deuxdrop'', ''phonebook.deuxdrop''] \<and>
   (\<exists>s ph. map_of (makeServerDef cfg) ''signup.deuxdrop'' = Some s \<and>
           map_of (makeServerDef cfg) ''phonebook.deuxdrop'' = Some ph \<and>
           authVerifier s endpointName clientKey \<and> authVerifier ph endpointName clientKey)"
  by (simp add: makeServerDef_def)

end
